theory Spec2Isabelle
  imports Main "HOL-Library.Sublist"
begin

section \<open>Values exchanged with the server\<close>

text \<open>
  The server of \<^verbatim>\<open>mcp_sse_server.py\<close> receives JSON, handles it as Python values
  (\<^verbatim>\<open>None\<close>, \<^verbatim>\<open>bool\<close>, \<^verbatim>\<open>int\<close>, \<^verbatim>\<open>float\<close>, \<^verbatim>\<open>str\<close>, \<^verbatim>\<open>list\<close>, \<^verbatim>\<open>dict\<close>) and
  answers with JSON. A dict keeps its insertion order, which \<^verbatim>\<open>json.dumps\<close>
  prints, so it is an association list; a lookup takes the first binding of a key.

  Text is ASCII in this development: a \<open>string\<close> is a list of 8-bit characters, and
  \<^verbatim>\<open>str.upper\<close>, \<^verbatim>\<open>repr\<close> and the escapes of \<^verbatim>\<open>json.dumps\<close> are written for that range.

  The code never computes with a float: it tests one for truth, prints one with
  \<^verbatim>\<open>str\<close> and serialises one. A float is therefore kept as those two observations:
  whether it is nonzero, and its \<^verbatim>\<open>repr\<close>.
\<close>

datatype pyfloat = PyFloat (fl_nonzero: bool) (fl_repr: string)

datatype json =
    JNull
  | JBool bool
  | JInt int
  | JFloat pyfloat
  | JStr string
  | JList "json list"
  | JObj "(string \<times> json) list"

text \<open>A raised \<^verbatim>\<open>Exception\<close> is kept as its \<^verbatim>\<open>str(e)\<close>, the only thing the code reads of it.\<close>

type_synonym fault = string

subsection \<open>Printing numbers\<close>

definition digit_char :: "nat \<Rightarrow> char" where
  "digit_char d = ''0123456789'' ! d"

function show_nat :: "nat \<Rightarrow> string" where
  "show_nat n = (if n < 10 then [digit_char n] else show_nat (n div 10) @ [digit_char (n mod 10)])"
  by pat_completeness auto
termination
  by (relation "measure id") auto

declare show_nat.simps [simp del]

definition show_int :: "int \<Rightarrow> string" where
  "show_int i = (if i < 0 then ''-'' @ show_nat (nat (- i)) else show_nat (nat i))"

definition hex_digit :: "nat \<Rightarrow> char" where
  "hex_digit d = ''0123456789abcdef'' ! d"

definition hex2 :: "char \<Rightarrow> string" where
  "hex2 c = [hex_digit ((of_char c :: nat) div 16), hex_digit ((of_char c :: nat) mod 16)]"

subsection \<open>Python's view of a value\<close>

fun join :: "string \<Rightarrow> string list \<Rightarrow> string" where
  "join sep [] = []"
| "join sep [x] = x"
| "join sep (x # y # ys) = x @ sep @ join sep (y # ys)"

definition upper_char :: "char \<Rightarrow> char" where
  "upper_char c =
     (if 97 \<le> (of_char c :: nat) \<and> (of_char c :: nat) \<le> 122
      then char_of ((of_char c :: nat) - 32) else c)"

definition str_upper :: "string \<Rightarrow> string" where
  "str_upper s = map upper_char s"

fun type_name :: "json \<Rightarrow> string" where
  "type_name JNull = ''NoneType''"
| "type_name (JBool b) = ''bool''"
| "type_name (JInt i) = ''int''"
| "type_name (JFloat f) = ''float''"
| "type_name (JStr s) = ''str''"
| "type_name (JList xs) = ''list''"
| "type_name (JObj kvs) = ''dict''"

text \<open>The message of the \<^verbatim>\<open>AttributeError\<close> raised by \<^verbatim>\<open>v.attr\<close> on a value without it.\<close>

definition no_attribute :: "json \<Rightarrow> string \<Rightarrow> fault" where
  "no_attribute v attr =
     [CHR 0x27] @ type_name v @ [CHR 0x27] @ '' object has no attribute '' @
     [CHR 0x27] @ attr @ [CHR 0x27]"

text \<open>\<^verbatim>\<open>v.get(key, default)\<close>: only a dict has the method.\<close>

fun py_get :: "json \<Rightarrow> string \<Rightarrow> json \<Rightarrow> fault + json" where
  "py_get (JObj kvs) key dflt = Inr (case map_of kvs key of None \<Rightarrow> dflt | Some v \<Rightarrow> v)"
| "py_get v key dflt = Inl (no_attribute v ''get'')"

text \<open>\<^verbatim>\<open>v.upper()\<close>: only a str has the method.\<close>

fun py_upper :: "json \<Rightarrow> fault + string" where
  "py_upper (JStr s) = Inr (str_upper s)"
| "py_upper v = Inl (no_attribute v ''upper'')"

text \<open>Truth value of a value in a condition.\<close>

fun py_truthy :: "json \<Rightarrow> bool" where
  "py_truthy JNull = False"
| "py_truthy (JBool b) = b"
| "py_truthy (JInt i) = (i \<noteq> 0)"
| "py_truthy (JFloat f) = fl_nonzero f"
| "py_truthy (JStr s) = (s \<noteq> [])"
| "py_truthy (JList xs) = (xs \<noteq> [])"
| "py_truthy (JObj kvs) = (kvs \<noteq> [])"

text \<open>
  \<^verbatim>\<open>repr\<close> of a str: single quotes, unless the text holds a single quote and no double
  quote; the quote and the backslash are escaped, control characters are written
  \<^verbatim>\<open>\t\<close>, \<^verbatim>\<open>\n\<close>, \<^verbatim>\<open>\r\<close> or \<^verbatim>\<open>\xNN\<close>.
\<close>

definition repr_quote :: "string \<Rightarrow> char" where
  "repr_quote s = (if CHR 0x27 \<in> set s \<and> CHR 0x22 \<notin> set s then CHR 0x22 else CHR 0x27)"

definition repr_char :: "char \<Rightarrow> char \<Rightarrow> string" where
  "repr_char q c =
     (if c = q \<or> c = CHR 0x5C then [CHR 0x5C, c]
      else if c = CHR 0x09 then [CHR 0x5C, CHR ''t'']
      else if c = CHR 0x0A then [CHR 0x5C, CHR ''n'']
      else if c = CHR 0x0D then [CHR 0x5C, CHR ''r'']
      else if (of_char c :: nat) < 32 \<or> 127 \<le> (of_char c :: nat)
        then [CHR 0x5C, CHR ''x''] @ hex2 c
      else [c])"

definition str_repr :: "string \<Rightarrow> string" where
  "str_repr s = (let q = repr_quote s in [q] @ concat (map (repr_char q) s) @ [q])"

fun py_repr :: "json \<Rightarrow> string" where
  "py_repr JNull = ''None''"
| "py_repr (JBool b) = (if b then ''True'' else ''False'')"
| "py_repr (JInt i) = show_int i"
| "py_repr (JFloat f) = fl_repr f"
| "py_repr (JStr s) = str_repr s"
| "py_repr (JList xs) = ''['' @ join '', '' (map py_repr xs) @ '']''"
| "py_repr (JObj kvs) =
     ''{'' @ join '', '' (map (\<lambda>(k, v). str_repr k @ '': '' @ py_repr v) kvs) @ ''}''"

text \<open>\<^verbatim>\<open>str(v)\<close>, which an f-string applies to \<^verbatim>\<open>{v}\<close>: the text itself for a str.\<close>

definition py_str :: "json \<Rightarrow> string" where
  "py_str v = (case v of JStr s \<Rightarrow> s | _ \<Rightarrow> py_repr v)"

subsection \<open>Serialisation: \<^verbatim>\<open>json.dumps\<close>\<close>

text \<open>
  With the default \<^verbatim>\<open>ensure_ascii\<close>, every character outside the printable ASCII range,
  the double quote and the backslash are escaped.
\<close>

definition json_char :: "char \<Rightarrow> string" where
  "json_char c =
     (if c = CHR 0x22 then [CHR 0x5C, CHR 0x22]
      else if c = CHR 0x5C then [CHR 0x5C, CHR 0x5C]
      else if c = CHR 0x0A then [CHR 0x5C, CHR ''n'']
      else if c = CHR 0x0D then [CHR 0x5C, CHR ''r'']
      else if c = CHR 0x09 then [CHR 0x5C, CHR ''t'']
      else if c = CHR 0x08 then [CHR 0x5C, CHR ''b'']
      else if c = CHR 0x0C then [CHR 0x5C, CHR ''f'']
      else if (of_char c :: nat) < 32 \<or> 127 \<le> (of_char c :: nat)
        then [CHR 0x5C, CHR ''u'', CHR ''0'', CHR ''0''] @ hex2 c
      else [c])"

definition json_str :: "string \<Rightarrow> string" where
  "json_str s = [CHR 0x22] @ concat (map json_char s) @ [CHR 0x22]"

definition json_float :: "pyfloat \<Rightarrow> string" where
  "json_float f =
     (if fl_repr f = ''nan'' then ''NaN''
      else if fl_repr f = ''inf'' then ''Infinity''
      else if fl_repr f = ''-inf'' then ''-Infinity''
      else fl_repr f)"

text \<open>\<^verbatim>\<open>json.dumps(v)\<close>: separators \<^verbatim>\<open>", "\<close> and \<^verbatim>\<open>": "\<close>, on one line.\<close>

fun dumps :: "json \<Rightarrow> string" where
  "dumps JNull = ''null''"
| "dumps (JBool b) = (if b then ''true'' else ''false'')"
| "dumps (JInt i) = show_int i"
| "dumps (JFloat f) = json_float f"
| "dumps (JStr s) = json_str s"
| "dumps (JList xs) = ''['' @ join '', '' (map dumps xs) @ '']''"
| "dumps (JObj kvs) =
     ''{'' @ join '', '' (map (\<lambda>(k, v). json_str k @ '': '' @ dumps v) kvs) @ ''}''"

text \<open>
  \<^verbatim>\<open>json.dumps(v, indent=2)\<close>: one item per line, two more spaces at each level, an
  empty container on one line. \<open>dumps_indent n v\<close> prints \<open>v\<close> at nesting level \<open>n\<close>.
\<close>

definition newline_indent :: "nat \<Rightarrow> string" where
  "newline_indent n = CHR 0x0A # replicate (2 * n) CHR '' ''"

fun dumps_indent :: "nat \<Rightarrow> json \<Rightarrow> string" where
  "dumps_indent n JNull = ''null''"
| "dumps_indent n (JBool b) = (if b then ''true'' else ''false'')"
| "dumps_indent n (JInt i) = show_int i"
| "dumps_indent n (JFloat f) = json_float f"
| "dumps_indent n (JStr s) = json_str s"
| "dumps_indent n (JList xs) =
     (if xs = [] then ''[]''
      else ''['' @ newline_indent (Suc n) @
           join ('','' @ newline_indent (Suc n)) (map (dumps_indent (Suc n)) xs) @
           newline_indent n @ '']'')"
| "dumps_indent n (JObj kvs) =
     (if kvs = [] then ''{}''
      else ''{'' @ newline_indent (Suc n) @
           join ('','' @ newline_indent (Suc n))
             (map (\<lambda>(k, v). json_str k @ '': '' @ dumps_indent (Suc n) v) kvs) @
           newline_indent n @ ''}'')"

section \<open>The warehouse client\<close>

text \<open>
  The BigQuery client is an external collaborator. What the code reads of its answers
  is kept in records; an answer is a fault (the \<^verbatim>\<open>str\<close> of the exception) or a value.
  \<open>cl_query\<close> stands for \<^verbatim>\<open>client.query(q).result()\<close> and the iteration over the
  rows, each row already a dict whose values \<^verbatim>\<open>json.dumps(..., default=str)\<close> can print.
\<close>

record dataset_item =
  ds_dataset_id :: string
  ds_project :: string

record full_dataset =
  fd_location :: "string option"
  fd_created :: "string option"
  fd_description :: "string option"
  fd_labels :: "(string \<times> string) list"

record table_item =
  ti_table_id :: string
  ti_table_type :: "string option"
  ti_project :: string
  ti_dataset_id :: string
  ti_created :: "string option"
  ti_num_rows :: "int option"

record schema_field =
  sf_name :: string
  sf_field_type :: string
  sf_mode :: string
  sf_description :: "string option"

record table_data =
  tb_table_id :: string
  tb_dataset_id :: string
  tb_project :: string
  tb_num_rows :: "int option"
  tb_schema :: "schema_field list"
  tb_created :: "string option"
  tb_modified :: "string option"
  tb_description :: "string option"

datatype dataset_ref = DatasetRef json

datatype table_ref = TableRef dataset_ref json

record client =
  cl_query :: "string \<Rightarrow> fault + json list"
  cl_list_datasets :: "fault + dataset_item list"
  cl_get_dataset :: "string \<Rightarrow> fault + full_dataset"
  cl_dataset :: "json \<Rightarrow> fault + dataset_ref"
  cl_list_tables :: "dataset_ref \<Rightarrow> fault + table_item list"
  cl_table :: "dataset_ref \<Rightarrow> json \<Rightarrow> fault + table_ref"
  cl_get_table :: "table_ref \<Rightarrow> fault + table_data"

text \<open>Every use of the client is recorded, in order, with its arguments.\<close>

datatype client_call =
    CallQuery string
  | CallListDatasets
  | CallGetDataset string
  | CallDataset json
  | CallListTables dataset_ref
  | CallTable dataset_ref json
  | CallGetTable table_ref

subsection \<open>Computations that use the client and may raise\<close>

text \<open>
  A computation yields the calls it made and either the fault it raised or its value.
  \<open>eff_try\<close> is \<^verbatim>\<open>try: ... except Exception as e: ...\<close>.
\<close>

type_synonym 'a effect = "client_call list \<times> (fault + 'a)"

definition eff_return :: "'a \<Rightarrow> 'a effect" where
  "eff_return x = ([], Inr x)"

definition eff_raise :: "fault \<Rightarrow> 'a effect" where
  "eff_raise e = ([], Inl e)"

definition eff_pure :: "fault + 'a \<Rightarrow> 'a effect" where
  "eff_pure r = ([], r)"

definition eff_call :: "client_call \<Rightarrow> fault + 'a \<Rightarrow> 'a effect" where
  "eff_call c r = ([c], r)"

definition eff_bind :: "'a effect \<Rightarrow> ('a \<Rightarrow> 'b effect) \<Rightarrow> 'b effect" where
  "eff_bind m f =
     (case m of
        (cs, Inl e) \<Rightarrow> (cs, Inl e)
      | (cs, Inr x) \<Rightarrow> (case f x of (cs', r) \<Rightarrow> (cs @ cs', r)))"

definition eff_try :: "'a effect \<Rightarrow> (fault \<Rightarrow> 'a effect) \<Rightarrow> 'a effect" where
  "eff_try m h =
     (case m of
        (cs, Inl e) \<Rightarrow> (case h e of (cs', r) \<Rightarrow> (cs @ cs', r))
      | (cs, Inr x) \<Rightarrow> (cs, Inr x))"

section \<open>The tool executor\<close>

definition text_content :: "string \<Rightarrow> json" where
  "text_content t = JObj [(''content'', JList [JObj [(''type'', JStr ''text''), (''text'', JStr t)]])]"

definition opt_str :: "string option \<Rightarrow> json" where
  "opt_str x = (case x of None \<Rightarrow> JNull | Some s \<Rightarrow> JStr s)"

definition opt_int :: "int option \<Rightarrow> json" where
  "opt_int x = (case x of None \<Rightarrow> JNull | Some i \<Rightarrow> JInt i)"

text \<open>\<^verbatim>\<open>x or 'Nessuna descrizione'\<close>: the default also replaces an empty text.\<close>

definition description_or_default :: "string option \<Rightarrow> json" where
  "description_or_default x =
     (case x of None \<Rightarrow> JStr ''Nessuna descrizione''
      | Some s \<Rightarrow> if s = [] then JStr ''Nessuna descrizione'' else JStr s)"

subsection \<open>\<^verbatim>\<open>query_bigquery\<close>\<close>

text \<open>
  The two \<^verbatim>\<open>args.get\<close> come before the \<^verbatim>\<open>try\<close>. Inside it, \<^verbatim>\<open>query.upper()\<close> is
  evaluated first; the text sent to the client is \<open>q\<close>.
\<close>

definition query_bigquery :: "client \<Rightarrow> json \<Rightarrow> json effect" where
  "query_bigquery c args =
     eff_bind (eff_pure (py_get args ''query'' (JStr []))) (\<lambda>query.
     eff_bind (eff_pure (py_get args ''limit'' (JInt 100))) (\<lambda>limit.
     eff_try
       (eff_bind (eff_pure (py_upper query)) (\<lambda>up.
        let q = (if \<not> sublist ''LIMIT'' up \<and> py_truthy limit
                 then py_str query @ '' LIMIT '' @ py_str limit else py_str query) in
        eff_bind (eff_call (CallQuery q) (cl_query c q)) (\<lambda>rows.
        eff_return (text_content
          (''Query eseguita con successo. Righe restituite: '' @ show_nat (length rows) @
           [CHR 0x0A, CHR 0x0A] @ ''Risultati:'' @ [CHR 0x0A] @ dumps_indent 0 (JList rows))))))
       (\<lambda>e. eff_return (text_content
          (''Errore nell'' @ [CHR 0x27] @ ''esecuzione della query: '' @ e)))))"

subsection \<open>\<^verbatim>\<open>list_datasets_impl\<close>\<close>

definition extended_entry :: "dataset_item \<Rightarrow> full_dataset \<Rightarrow> json" where
  "extended_entry d full =
     JObj [(''dataset_id'', JStr (ds_dataset_id d)),
           (''project'', JStr (ds_project d)),
           (''location'', opt_str (fd_location full)),
           (''created'', opt_str (fd_created full)),
           (''description'', description_or_default (fd_description full)),
           (''labels'', JObj (map (\<lambda>(k, v). (k, JStr v)) (fd_labels full)))]"

definition reduced_entry :: "dataset_item \<Rightarrow> fault \<Rightarrow> json" where
  "reduced_entry d e =
     JObj [(''dataset_id'', JStr (ds_dataset_id d)),
           (''project'', JStr (ds_project d)),
           (''full_name'', JStr (ds_project d @ ''.'' @ ds_dataset_id d)),
           (''error'', JStr (''Impossibile ottenere dettagli: '' @ e))]"

text \<open>The loop over the datasets; \<open>info\<close> is \<^verbatim>\<open>dataset_info\<close>, appended to at each turn.\<close>

fun dataset_loop :: "client \<Rightarrow> dataset_item list \<Rightarrow> json list \<Rightarrow> json list effect" where
  "dataset_loop c [] info = eff_return info"
| "dataset_loop c (d # ds) info =
     eff_bind
       (eff_try
          (eff_bind (eff_call (CallGetDataset (ds_dataset_id d)) (cl_get_dataset c (ds_dataset_id d)))
             (\<lambda>full. eff_return (info @ [extended_entry d full])))
          (\<lambda>e. eff_return (info @ [reduced_entry d e])))
       (\<lambda>info'. dataset_loop c ds info')"

definition datasets_text :: "json list \<Rightarrow> string" where
  "datasets_text info =
     ''Dataset trovati: '' @ show_nat (length info) @ [CHR 0x0A, CHR 0x0A] @
     dumps_indent 0 (JList info)"

definition list_datasets_impl :: "client \<Rightarrow> json effect" where
  "list_datasets_impl c =
     eff_try
       (eff_bind (eff_call CallListDatasets (cl_list_datasets c)) (\<lambda>datasets.
        eff_bind (dataset_loop c datasets []) (\<lambda>info.
        eff_return (text_content (datasets_text info)))))
       (\<lambda>e. eff_return (text_content (''Errore nel recuperare i dataset: '' @ e)))"

subsection \<open>\<^verbatim>\<open>list_tables\<close>\<close>

definition table_entry :: "table_item \<Rightarrow> json" where
  "table_entry t =
     JObj ([(''table_id'', JStr (ti_table_id t)),
            (''table_type'', opt_str (ti_table_type t)),
            (''full_name'', JStr (ti_project t @ ''.'' @ ti_dataset_id t @ ''.'' @ ti_table_id t))] @
           (case ti_created t of None \<Rightarrow> [] | Some s \<Rightarrow> [(''created'', JStr s)]) @
           (case ti_num_rows t of None \<Rightarrow> [] | Some n \<Rightarrow> [(''num_rows'', JInt n)]))"

definition list_tables :: "client \<Rightarrow> json \<Rightarrow> json effect" where
  "list_tables c args =
     eff_bind (eff_pure (py_get args ''dataset_id'' JNull)) (\<lambda>dataset_id.
     eff_try
       (eff_bind (eff_call (CallDataset dataset_id) (cl_dataset c dataset_id)) (\<lambda>dataset_ref.
        eff_bind (eff_call (CallListTables dataset_ref) (cl_list_tables c dataset_ref)) (\<lambda>tables.
        let table_info = map table_entry tables in
        eff_return (text_content
          (''Tabelle nel dataset '' @ py_str dataset_id @ '': '' @ show_nat (length table_info) @
           [CHR 0x0A, CHR 0x0A] @ dumps_indent 0 (JList table_info))))))
       (\<lambda>e. eff_return (text_content (''Errore nel recuperare le tabelle: '' @ e))))"

subsection \<open>\<^verbatim>\<open>describe_table\<close>\<close>

definition field_entry :: "schema_field \<Rightarrow> json" where
  "field_entry f =
     JObj [(''name'', JStr (sf_name f)),
           (''type'', JStr (sf_field_type f)),
           (''mode'', JStr (sf_mode f)),
           (''description'', description_or_default (sf_description f))]"

definition table_info :: "table_data \<Rightarrow> json" where
  "table_info t =
     JObj [(''table_id'', JStr (tb_table_id t)),
           (''dataset_id'', JStr (tb_dataset_id t)),
           (''project'', JStr (tb_project t)),
           (''num_rows'', opt_int (tb_num_rows t)),
           (''schema'', JList (map field_entry (tb_schema t))),
           (''created'', opt_str (tb_created t)),
           (''modified'', opt_str (tb_modified t)),
           (''description'', description_or_default (tb_description t))]"

definition describe_table :: "client \<Rightarrow> json \<Rightarrow> json effect" where
  "describe_table c args =
     eff_bind (eff_pure (py_get args ''dataset_id'' JNull)) (\<lambda>dataset_id.
     eff_bind (eff_pure (py_get args ''table_id'' JNull)) (\<lambda>table_id.
     eff_try
       (eff_bind (eff_call (CallDataset dataset_id) (cl_dataset c dataset_id)) (\<lambda>dataset_ref.
        eff_bind (eff_call (CallTable dataset_ref table_id) (cl_table c dataset_ref table_id)) (\<lambda>table_ref.
        eff_bind (eff_call (CallGetTable table_ref) (cl_get_table c table_ref)) (\<lambda>table.
        eff_return (text_content
          (''Descrizione tabella '' @ py_str dataset_id @ ''.'' @ py_str table_id @ '':'' @
           [CHR 0x0A, CHR 0x0A] @ dumps_indent 0 (table_info table)))))))
       (\<lambda>e. eff_return (text_content (''Errore nel descrivere la tabella: '' @ e)))))"

subsection \<open>\<^verbatim>\<open>call_tool\<close>\<close>

text \<open>The \<^verbatim>\<open>except\<close> of \<^verbatim>\<open>call_tool\<close> logs and raises again: a fault passes through.\<close>

definition call_tool :: "client \<Rightarrow> json \<Rightarrow> json \<Rightarrow> json effect" where
  "call_tool c name arguments =
     (if name = JStr ''query_bigquery'' then query_bigquery c arguments
      else if name = JStr ''list_datasets'' then list_datasets_impl c
      else if name = JStr ''list_tables'' then list_tables c arguments
      else if name = JStr ''describe_table'' then describe_table c arguments
      else eff_raise (''Strumento non trovato: '' @ py_str name))"

section \<open>The request dispatcher\<close>

subsection \<open>The static payloads\<close>

definition initialize_result :: json where
  "initialize_result =
     JObj [(''protocolVersion'', JStr ''2024-11-05''),
           (''capabilities'', JObj [(''tools'', JObj [])]),
           (''serverInfo'', JObj [(''name'', JStr ''bigquery-mcp-server''),
                                  (''version'', JStr ''1.0.0'')])]"

definition string_property :: "string \<Rightarrow> json" where
  "string_property d = JObj [(''type'', JStr ''string''), (''description'', JStr d)]"

definition query_bigquery_tool :: json where
  "query_bigquery_tool =
     JObj [(''name'', JStr ''query_bigquery''),
           (''description'', JStr ''Esegue una query SQL su BigQuery''),
           (''inputSchema'', JObj
              [(''type'', JStr ''object''),
               (''properties'', JObj
                  [(''query'', string_property ''Query SQL da eseguire''),
                   (''limit'', JObj
                      [(''type'', JStr ''number''),
                       (''description'', JStr ''Limite di righe da restituire (default: 100)''),
                       (''default'', JInt 100)])]),
               (''required'', JList [JStr ''query''])])]"

definition list_datasets_tool :: json where
  "list_datasets_tool =
     JObj [(''name'', JStr ''list_datasets''),
           (''description'', JStr ''Lista tutti i dataset disponibili nel progetto''),
           (''inputSchema'', JObj
              [(''type'', JStr ''object''),
               (''properties'', JObj [])])]"

definition list_tables_tool :: json where
  "list_tables_tool =
     JObj [(''name'', JStr ''list_tables''),
           (''description'', JStr ''Lista le tabelle in un dataset''),
           (''inputSchema'', JObj
              [(''type'', JStr ''object''),
               (''properties'', JObj
                  [(''dataset_id'', string_property ''ID del dataset'')]),
               (''required'', JList [JStr ''dataset_id''])])]"

definition describe_table_tool :: json where
  "describe_table_tool =
     JObj [(''name'', JStr ''describe_table''),
           (''description'', JStr ''Descrive la struttura di una tabella''),
           (''inputSchema'', JObj
              [(''type'', JStr ''object''),
               (''properties'', JObj
                  [(''dataset_id'', string_property ''ID del dataset''),
                   (''table_id'', string_property ''ID della tabella'')]),
               (''required'', JList [JStr ''dataset_id'', JStr ''table_id''])])]"

definition tool_descriptors :: "json list" where
  "tool_descriptors =
     [query_bigquery_tool, list_datasets_tool, list_tables_tool, describe_table_tool]"

subsection \<open>Responses\<close>

definition result_response :: "json \<Rightarrow> json \<Rightarrow> json" where
  "result_response request_id r =
     JObj [(''jsonrpc'', JStr ''2.0''), (''id'', request_id), (''result'', r)]"

definition error_response :: "json \<Rightarrow> int \<Rightarrow> string \<Rightarrow> json" where
  "error_response request_id code message =
     JObj [(''jsonrpc'', JStr ''2.0''), (''id'', request_id),
           (''error'', JObj [(''code'', JInt code), (''message'', JStr message)])]"

subsection \<open>\<^verbatim>\<open>handle_mcp_request\<close>\<close>

text \<open>
  \<open>dispatch\<close> is the body of the \<^verbatim>\<open>try\<close>; \<open>handle_mcp_request\<close> adds the handler, whose
  own \<^verbatim>\<open>request.get('id')\<close> may raise again, and then nothing catches it here.
\<close>

definition dispatch :: "client \<Rightarrow> json \<Rightarrow> json effect" where
  "dispatch c request =
     eff_bind (eff_pure (py_get request ''method'' JNull)) (\<lambda>method.
     eff_bind (eff_pure (py_get request ''params'' (JObj []))) (\<lambda>params.
     eff_bind (eff_pure (py_get request ''id'' JNull)) (\<lambda>request_id.
       if method = JStr ''initialize'' then
         eff_return (result_response request_id initialize_result)
       else if method = JStr ''tools/list'' then
         eff_return (result_response request_id (JObj [(''tools'', JList tool_descriptors)]))
       else if method = JStr ''tools/call'' then
         eff_bind (eff_pure (py_get params ''name'' JNull)) (\<lambda>tool_name.
         eff_bind (eff_pure (py_get params ''arguments'' (JObj []))) (\<lambda>arguments.
         eff_bind (call_tool c tool_name arguments) (\<lambda>result.
         eff_return (result_response request_id result))))
       else
         eff_return (error_response request_id (- 32601)
                       (''Metodo non trovato: '' @ py_str method)))))"

definition handle_mcp_request :: "client \<Rightarrow> json \<Rightarrow> json effect" where
  "handle_mcp_request c request =
     eff_try (dispatch c request)
       (\<lambda>e. eff_bind (eff_pure (py_get request ''id'' JNull)) (\<lambda>request_id.
            eff_return (error_response request_id (- 32603)
                          (''Errore interno del server: '' @ e))))"

section \<open>The \<^verbatim>\<open>/sse\<close> endpoint\<close>

text \<open>
  \<open>body\<close> is the bytes of the request body. \<open>loads\<close> stands for
  \<^verbatim>\<open>json.loads(body.decode('utf-8'))\<close>: the parsed value, or the fault of the decoding or
  of the parser. The generator \<^verbatim>\<open>event_stream\<close> is the list of the frames it yields.
\<close>

definition sse_frame :: "json \<Rightarrow> string" where
  "sse_frame v = ''data: '' @ dumps v @ [CHR 0x0A, CHR 0x0A]"

definition event_stream_try :: "(string \<Rightarrow> fault + json) \<Rightarrow> client \<Rightarrow> string \<Rightarrow> string list effect" where
  "event_stream_try loads c body =
     (if body \<noteq> [] then
        eff_bind (eff_pure (loads body)) (\<lambda>mcp_request.
        eff_bind (handle_mcp_request c mcp_request) (\<lambda>response.
        eff_return [sse_frame response]))
      else eff_return [sse_frame (JObj [(''type'', JStr ''connected'')])])"

definition event_stream :: "(string \<Rightarrow> fault + json) \<Rightarrow> client \<Rightarrow> string \<Rightarrow> string list effect" where
  "event_stream loads c body =
     eff_try (event_stream_try loads c body)
       (\<lambda>e. eff_return [sse_frame (error_response JNull (- 32603)
                                      (''Errore del server SSE: '' @ e))])"

section \<open>Readings of requests and responses\<close>

text \<open>The \<^verbatim>\<open>id\<close> that a request object carries: \<^verbatim>\<open>request.get('id')\<close>.\<close>

definition request_id_of :: "(string \<times> json) list \<Rightarrow> json" where
  "request_id_of kvs = (case map_of kvs ''id'' of None \<Rightarrow> JNull | Some i \<Rightarrow> i)"

text \<open>
  The arguments a tool descriptor requires: the \<^verbatim>\<open>required\<close> entry of its input schema;
  a schema without the entry requires none.
\<close>

definition required_arguments :: "json \<Rightarrow> json" where
  "required_arguments tool =
     (case py_get tool ''inputSchema'' (JObj []) of
        Inl e \<Rightarrow> JList []
      | Inr schema \<Rightarrow>
          (case py_get schema ''required'' (JList []) of Inl e \<Rightarrow> JList [] | Inr r \<Rightarrow> r))"

definition tool_name :: "json \<Rightarrow> json" where
  "tool_name tool = (case py_get tool ''name'' JNull of Inl e \<Rightarrow> JNull | Inr n \<Rightarrow> n)"

text \<open>What one turn of the loop of \<^verbatim>\<open>list_datasets_impl\<close> appends for a dataset.\<close>

definition dataset_entry :: "client \<Rightarrow> dataset_item \<Rightarrow> json" where
  "dataset_entry c d =
     (case cl_get_dataset c (ds_dataset_id d) of
        Inr full \<Rightarrow> extended_entry d full
      | Inl e \<Rightarrow> reduced_entry d e)"

section \<open>A sample warehouse and a sample parser\<close>

text \<open>
  A project with two datasets, of which the second refuses its metadata; every table
  is missing; one query text is rejected. The parser knows two bodies and rejects the
  others.
\<close>

definition sample_client :: client where
  "sample_client =
     \<lparr> cl_query = (\<lambda>q. if q = ''SELECT bad'' then Inl ''400 Syntax error''
                        else Inr [JObj [(''f0_'', JInt 1)]]),
       cl_list_datasets = Inr [\<lparr>ds_dataset_id = ''sales'', ds_project = ''p''\<rparr>,
                               \<lparr>ds_dataset_id = ''hr'', ds_project = ''p''\<rparr>],
       cl_get_dataset = (\<lambda>d. if d = ''sales''
          then Inr \<lparr>fd_location = Some ''EU'', fd_created = Some ''2024-01-01 00:00:00+00:00'',
                    fd_description = None, fd_labels = [(''env'', ''prod'')]\<rparr>
          else Inl ''403 Access Denied''),
       cl_dataset = (\<lambda>d. case d of JStr s \<Rightarrow> Inr (DatasetRef d)
                                   | _ \<Rightarrow> Inl ''Pass a string for dataset ID''),
       cl_list_tables = (\<lambda>r. Inr []),
       cl_table = (\<lambda>r t. Inr (TableRef r t)),
       cl_get_table = (\<lambda>r. Inl ''404 Not found: Table p:sales.nope'') \<rparr>"

definition sample_loads :: "string \<Rightarrow> fault + json" where
  \<open>sample_loads body =
     (if body = ''[1]'' then Inr (JList [JInt 1])
      else if body = ''{"id": 7, "method": "tools/call", "params": null}''
        then Inr (JObj [(''id'', JInt 7), (''method'', JStr ''tools/call''), (''params'', JNull)])
      else Inl ''Expecting value: line 1 column 1 (char 0)'')\<close>

section \<open>Basic facts\<close>

lemma eff_bind_pair [simp]:
  "eff_bind (cs, r) f =
     (case r of Inl e \<Rightarrow> (cs, Inl e) | Inr x \<Rightarrow> (cs @ fst (f x), snd (f x)))"
  by (simp add: eff_bind_def case_prod_beta split: sum.splits)

lemma eff_try_pair [simp]:
  "eff_try (cs, r) h =
     (case r of Inl e \<Rightarrow> (cs @ fst (h e), snd (h e)) | Inr x \<Rightarrow> (cs, Inr x))"
  by (simp add: eff_try_def case_prod_beta split: sum.splits)

lemma eff_bind_alt:
  "eff_bind m f =
     (case snd m of Inl e \<Rightarrow> (fst m, Inl e) | Inr x \<Rightarrow> (fst m @ fst (f x), snd (f x)))"
  by (cases m) (simp split: sum.splits)

lemma eff_try_alt:
  "eff_try m h =
     (case snd m of Inl e \<Rightarrow> (fst m @ fst (h e), snd (h e)) | Inr x \<Rightarrow> (fst m, Inr x))"
  by (cases m) (simp split: sum.splits)

lemmas eff_defs = eff_return_def eff_raise_def eff_pure_def eff_call_def

subsection \<open>The tools answer with a text, whatever the client does\<close>

lemma query_bigquery_calls:
  assumes "py_get args ''query'' (JStr []) = Inr (JStr q)"
      and "py_get args ''limit'' (JInt 100) = Inr limit"
  shows "fst (query_bigquery c args) =
           [CallQuery (if \<not> sublist ''LIMIT'' (str_upper q) \<and> py_truthy limit
                       then q @ '' LIMIT '' @ py_str limit else q)]"
  using assms
  by (auto simp: query_bigquery_def eff_defs py_str_def Let_def split: sum.splits)


lemma dataset_loop_eq:
  "dataset_loop c ds info =
     (map (\<lambda>d. CallGetDataset (ds_dataset_id d)) ds, Inr (info @ map (dataset_entry c) ds))"
proof (induction ds arbitrary: info)
  case Nil
  show ?case by (simp add: eff_defs)
next
  case (Cons d ds)
  show ?case
    by (cases "cl_get_dataset c (ds_dataset_id d)")
       (simp_all add: Cons.IH eff_defs dataset_entry_def)
qed

lemma list_datasets_impl_eq:
  "list_datasets_impl c =
     (case cl_list_datasets c of
        Inl e \<Rightarrow> ([CallListDatasets],
                  Inr (text_content (''Errore nel recuperare i dataset: '' @ e)))
      | Inr ds \<Rightarrow> (CallListDatasets # map (\<lambda>d. CallGetDataset (ds_dataset_id d)) ds,
                  Inr (text_content (datasets_text (map (dataset_entry c) ds)))))"
  by (simp add: list_datasets_impl_def dataset_loop_eq eff_defs split: sum.splits)




lemma tool_not_object:
  assumes "\<And>kvs. args \<noteq> JObj kvs"
  shows "query_bigquery c args = ([], Inl (no_attribute args ''get''))"
    and "list_tables c args = ([], Inl (no_attribute args ''get''))"
    and "describe_table c args = ([], Inl (no_attribute args ''get''))"
  using assms
  by (cases args; simp add: query_bigquery_def list_tables_def describe_table_def eff_defs)+

subsection \<open>The dispatcher on a request object\<close>

lemma dispatch_object:
  "snd (dispatch c (JObj kvs)) = Inr resp \<Longrightarrow>
     (\<exists>x. resp = result_response (request_id_of kvs) x) \<or>
     (\<exists>m. resp = error_response (request_id_of kvs) (- 32601) m)"
  by (auto simp: dispatch_def eff_defs eff_bind_alt request_id_of_def split: if_splits sum.splits)

lemma handle_object:
  "handle_mcp_request c (JObj kvs) =
     (fst (dispatch c (JObj kvs)),
      case snd (dispatch c (JObj kvs)) of
        Inr resp \<Rightarrow> Inr resp
      | Inl e \<Rightarrow> Inr (error_response (request_id_of kvs) (- 32603)
                        (''Errore interno del server: '' @ e)))"
  by (simp add: handle_mcp_request_def eff_try_alt eff_defs request_id_of_def split: sum.splits)

lemma handle_not_object:
  assumes "\<And>kvs. v \<noteq> JObj kvs"
  shows "handle_mcp_request c v = ([], Inl (no_attribute v ''get''))"
proof (cases v)
  case (JObj kvs)
  with assms show ?thesis by blast
qed (simp_all add: handle_mcp_request_def dispatch_def eff_defs)

subsection \<open>A tool call through the dispatcher\<close>





subsection \<open>The text of a tool when something raises inside it\<close>









subsection \<open>The event stream\<close>

lemma event_stream_eq:
  "event_stream loads c body =
     (if body = [] then ([], Inr [sse_frame (JObj [(''type'', JStr ''connected'')])])
      else case loads body of
             Inl e \<Rightarrow> ([], Inr [sse_frame (error_response JNull (- 32603) (''Errore del server SSE: '' @ e))])
           | Inr x \<Rightarrow>
               (fst (handle_mcp_request c x),
                case snd (handle_mcp_request c x) of
                  Inl e \<Rightarrow> Inr [sse_frame (error_response JNull (- 32603) (''Errore del server SSE: '' @ e))]
                | Inr resp \<Rightarrow> Inr [sse_frame resp]))"
  by (simp add: event_stream_def event_stream_try_def eff_defs eff_bind_alt eff_try_alt
        split: sum.splits)

lemma event_stream_try_eq:
  "event_stream_try loads c body =
     (if body = [] then ([], Inr [sse_frame (JObj [(''type'', JStr ''connected'')])])
      else case loads body of
             Inl e \<Rightarrow> ([], Inl e)
           | Inr x \<Rightarrow>
               (fst (handle_mcp_request c x),
                case snd (handle_mcp_request c x) of
                  Inl e \<Rightarrow> Inl e
                | Inr resp \<Rightarrow> Inr [sse_frame resp]))"
  by (simp add: event_stream_try_def eff_defs eff_bind_alt split: sum.splits)

section \<open>The claims\<close>

text \<open>
  C8. A POST to \<^verbatim>\<open>/sse\<close> with an empty body: the stream is exactly one frame,
  \<^verbatim>\<open>data: {"type": "connected"}\<close> followed by a blank line, and then it ends. No parser and no
  client is involved.
\<close>

theorem sse_empty_body_connected:
  \<open>event_stream loads c [] = ([], Inr [''data: {"type": "connected"}'' @ [CHR 0x0A, CHR 0x0A]])\<close>
  by (simp add: event_stream_def event_stream_try_def eff_defs sse_frame_def json_str_def
        json_char_def)

text \<open>
  C3. A request whose \<^verbatim>\<open>method\<close> is none of \<^verbatim>\<open>initialize\<close>, \<^verbatim>\<open>tools/list\<close> and
  \<^verbatim>\<open>tools/call\<close> (an absent one reads as \<^verbatim>\<open>None\<close>) is answered, without any use of the
  client, by a response of three fields: the protocol version, the \<^verbatim>\<open>id\<close> of the request
  and an \<^verbatim>\<open>error\<close> of code \<open>-32601\<close> whose message names the method. There is no
  \<^verbatim>\<open>result\<close> field.
\<close>

theorem unknown_method_error:
  assumes "py_get request ''method'' JNull = Inr method"
      and "method \<noteq> JStr ''initialize''"
      and "method \<noteq> JStr ''tools/list''"
      and "method \<noteq> JStr ''tools/call''"
      and "py_get request ''id'' JNull = Inr request_id"
  shows "handle_mcp_request c request =
           ([], Inr (JObj [(''jsonrpc'', JStr ''2.0''), (''id'', request_id),
                           (''error'', JObj [(''code'', JInt (- 32601)),
                                             (''message'', JStr (''Metodo non trovato: '' @ py_str method))])]))"
proof -
  obtain kvs where r: "request = JObj kvs"
    using assms(1) by (cases request) simp_all
  show ?thesis
    using assms unfolding r
    by (simp add: handle_mcp_request_def dispatch_def eff_defs error_response_def)
qed

theorem unknown_method_error_witness:
  "py_get (JObj [(''method'', JStr ''foo/bar''), (''id'', JInt 7)]) ''method'' JNull = Inr (JStr ''foo/bar'') \<and>
   JStr ''foo/bar'' \<noteq> JStr ''initialize'' \<and> JStr ''foo/bar'' \<noteq> JStr ''tools/list'' \<and>
   JStr ''foo/bar'' \<noteq> JStr ''tools/call'' \<and>
   py_get (JObj [(''method'', JStr ''foo/bar''), (''id'', JInt 7)]) ''id'' JNull = Inr (JInt 7) \<and>
   handle_mcp_request sample_client (JObj [(''method'', JStr ''foo/bar''), (''id'', JInt 7)]) =
     ([], Inr (JObj [(''jsonrpc'', JStr ''2.0''), (''id'', JInt 7),
                     (''error'', JObj [(''code'', JInt (- 32601)),
                                       (''message'', JStr ''Metodo non trovato: foo/bar'')])]))"
  using unknown_method_error [of "JObj [(''method'', JStr ''foo/bar''), (''id'', JInt 7)]"
                                 "JStr ''foo/bar''" "JInt 7" sample_client]
  by (simp add: py_str_def)

text \<open>
  C1, as the code has it. When \<^verbatim>\<open>query\<close> is a text \<open>q\<close> (an absent one reads as the
  empty text) and \<open>limit\<close> is the \<^verbatim>\<open>limit\<close> argument (100 when absent), a
  \<^verbatim>\<open>query_bigquery\<close> call sends exactly one query to the client: \<open>q\<close> followed by
  \<^verbatim>\<open> LIMIT \<close> and \<^verbatim>\<open>str(limit)\<close> when the upper-cased \<open>q\<close> does not contain
  \<^verbatim>\<open>LIMIT\<close> and \<open>limit\<close> is truthy, and \<open>q\<close> unchanged otherwise.
\<close>

theorem limit_appended_when_truthy:
  assumes "py_get args ''query'' (JStr []) = Inr (JStr q)"
      and "py_get args ''limit'' (JInt 100) = Inr limit"
  shows "fst (call_tool c (JStr ''query_bigquery'') args) =
           [CallQuery (if \<not> sublist ''LIMIT'' (str_upper q) \<and> py_truthy limit
                       then q @ '' LIMIT '' @ py_str limit else q)]"
  using query_bigquery_calls [OF assms] by (simp add: call_tool_def)

theorem limit_appended_when_truthy_witness:
  "py_get (JObj [(''query'', JStr ''SELECT 1'')]) ''query'' (JStr []) = Inr (JStr ''SELECT 1'') \<and>
   py_get (JObj [(''query'', JStr ''SELECT 1'')]) ''limit'' (JInt 100) = Inr (JInt 100) \<and>
   fst (call_tool sample_client (JStr ''query_bigquery'') (JObj [(''query'', JStr ''SELECT 1'')])) =
     [CallQuery ''SELECT 1 LIMIT 100'']"
proof -
  have q: "py_get (JObj [(''query'', JStr ''SELECT 1'')]) ''query'' (JStr []) = Inr (JStr ''SELECT 1'')"
    by simp
  have l: "py_get (JObj [(''query'', JStr ''SELECT 1'')]) ''limit'' (JInt 100) = Inr (JInt 100)"
    by simp
  have v: "(if \<not> sublist ''LIMIT'' (str_upper ''SELECT 1'') \<and> py_truthy (JInt 100)
            then ''SELECT 1'' @ '' LIMIT '' @ py_str (JInt 100) else ''SELECT 1'') = ''SELECT 1 LIMIT 100''"
    by code_simp
  show ?thesis
    using limit_appended_when_truthy [OF q l, of sample_client] q l unfolding v by simp
qed

text \<open>
  C1 as stated fails: with \<^verbatim>\<open>limit\<close> 0 the query \<^verbatim>\<open>SELECT 1\<close>, which does not contain
  \<^verbatim>\<open>LIMIT\<close>, is sent unchanged, not as \<^verbatim>\<open>SELECT 1 LIMIT 0\<close>.
\<close>

theorem limit_zero_counterexample:
  "\<not> sublist ''LIMIT'' (str_upper ''SELECT 1'') \<and>
   fst (call_tool sample_client (JStr ''query_bigquery'')
          (JObj [(''query'', JStr ''SELECT 1''), (''limit'', JInt 0)])) = [CallQuery ''SELECT 1''] \<and>
   ''SELECT 1'' \<noteq> ''SELECT 1'' @ '' LIMIT '' @ py_str (JInt 0)"
  by code_simp

text \<open>
  C9. When the \<^verbatim>\<open>limit\<close> argument is present and falsy (0, an empty text, \<^verbatim>\<open>null\<close>,
  \<^verbatim>\<open>false\<close>), the query text is sent to the client exactly as supplied, whether or not it
  contains \<^verbatim>\<open>LIMIT\<close>.
\<close>

theorem falsy_limit_leaves_query:
  assumes "map_of kvs ''limit'' = Some limit"
      and "\<not> py_truthy limit"
      and "py_get (JObj kvs) ''query'' (JStr []) = Inr (JStr q)"
  shows "fst (call_tool c (JStr ''query_bigquery'') (JObj kvs)) = [CallQuery q]"
proof -
  have "py_get (JObj kvs) ''limit'' (JInt 100) = Inr limit"
    using assms(1) by simp
  from query_bigquery_calls [OF assms(3) this] assms(2) show ?thesis
    by (simp add: call_tool_def)
qed

theorem falsy_limit_leaves_query_witness:
  "map_of [(''query'', JStr ''SELECT 1''), (''limit'', JInt 0)] ''limit'' = Some (JInt 0) \<and>
   \<not> py_truthy (JInt 0) \<and>
   py_get (JObj [(''query'', JStr ''SELECT 1''), (''limit'', JInt 0)]) ''query'' (JStr []) = Inr (JStr ''SELECT 1'') \<and>
   \<not> sublist ''LIMIT'' (str_upper ''SELECT 1'') \<and>
   fst (call_tool sample_client (JStr ''query_bigquery'')
          (JObj [(''query'', JStr ''SELECT 1''), (''limit'', JInt 0)])) = [CallQuery ''SELECT 1'']"
proof -
  have a: "map_of [(''query'', JStr ''SELECT 1''), (''limit'', JInt 0)] ''limit'' = Some (JInt 0)"
    by simp
  have b: "\<not> py_truthy (JInt 0)" by simp
  have d: "py_get (JObj [(''query'', JStr ''SELECT 1''), (''limit'', JInt 0)]) ''query'' (JStr []) = Inr (JStr ''SELECT 1'')"
    by simp
  have e: "\<not> sublist ''LIMIT'' (str_upper ''SELECT 1'')" by code_simp
  show ?thesis
    using falsy_limit_leaves_query [OF a b d, of sample_client] a b d e by simp
qed

text \<open>
  C5. A \<^verbatim>\<open>tools/list\<close> request, whatever else it carries, is answered by the four
  static descriptors, named \<^verbatim>\<open>query_bigquery\<close>, \<^verbatim>\<open>list_datasets\<close>, \<^verbatim>\<open>list_tables\<close>
  and \<^verbatim>\<open>describe_table\<close>, which require \<^verbatim>\<open>query\<close>, nothing, \<^verbatim>\<open>dataset_id\<close>, and
  \<^verbatim>\<open>dataset_id\<close> with \<^verbatim>\<open>table_id\<close>; the client is not used.
\<close>

theorem tools_list_static:
  assumes "py_get request ''method'' JNull = Inr (JStr ''tools/list'')"
      and "py_get request ''id'' JNull = Inr request_id"
  shows "handle_mcp_request c request =
           ([], Inr (JObj [(''jsonrpc'', JStr ''2.0''), (''id'', request_id),
                           (''result'', JObj [(''tools'', JList tool_descriptors)])])) \<and>
         map tool_name tool_descriptors =
           [JStr ''query_bigquery'', JStr ''list_datasets'', JStr ''list_tables'', JStr ''describe_table''] \<and>
         map required_arguments tool_descriptors =
           [JList [JStr ''query''], JList [], JList [JStr ''dataset_id''],
            JList [JStr ''dataset_id'', JStr ''table_id'']]"
proof -
  obtain kvs where r: "request = JObj kvs"
    using assms(1) by (cases request) simp_all
  have "handle_mcp_request c request =
           ([], Inr (JObj [(''jsonrpc'', JStr ''2.0''), (''id'', request_id),
                           (''result'', JObj [(''tools'', JList tool_descriptors)])]))"
    using assms unfolding r
    by (simp add: handle_mcp_request_def dispatch_def eff_defs result_response_def)
  moreover have "map tool_name tool_descriptors =
           [JStr ''query_bigquery'', JStr ''list_datasets'', JStr ''list_tables'', JStr ''describe_table'']"
    by (simp add: tool_descriptors_def tool_name_def query_bigquery_tool_def list_datasets_tool_def
          list_tables_tool_def describe_table_tool_def)
  moreover have "map required_arguments tool_descriptors =
           [JList [JStr ''query''], JList [], JList [JStr ''dataset_id''],
            JList [JStr ''dataset_id'', JStr ''table_id'']]"
    by (simp add: tool_descriptors_def required_arguments_def query_bigquery_tool_def
          list_datasets_tool_def list_tables_tool_def describe_table_tool_def)
  ultimately show ?thesis by simp
qed

theorem tools_list_static_witness:
  "py_get (JObj [(''method'', JStr ''tools/list''), (''id'', JInt 2), (''params'', JObj [(''x'', JInt 1)])])
     ''method'' JNull = Inr (JStr ''tools/list'') \<and>
   py_get (JObj [(''method'', JStr ''tools/list''), (''id'', JInt 2), (''params'', JObj [(''x'', JInt 1)])])
     ''id'' JNull = Inr (JInt 2) \<and>
   handle_mcp_request sample_client
     (JObj [(''method'', JStr ''tools/list''), (''id'', JInt 2), (''params'', JObj [(''x'', JInt 1)])]) =
     ([], Inr (JObj [(''jsonrpc'', JStr ''2.0''), (''id'', JInt 2),
                     (''result'', JObj [(''tools'', JList tool_descriptors)])]))"
  using tools_list_static
    [of "JObj [(''method'', JStr ''tools/list''), (''id'', JInt 2), (''params'', JObj [(''x'', JInt 1)])]"
        "JInt 2" sample_client]
  by simp

text \<open>
  C4. Every request object gets a response, never a fault: a dict that carries the
  \<^verbatim>\<open>id\<close> of the request (\<^verbatim>\<open>null\<close> when the request has none) and exactly one of
  \<^verbatim>\<open>result\<close> and \<^verbatim>\<open>error\<close>. When the dispatch raises a fault, the response is the
  error of code \<open>-32603\<close> whose message ends with the text of the fault.
\<close>

theorem response_has_result_or_error:
  "\<exists>calls resp.
      handle_mcp_request c (JObj kvs) = (calls, Inr (JObj resp)) \<and>
      map_of resp ''id'' = Some (request_id_of kvs) \<and>
      (map_of resp ''result'' = None) \<noteq> (map_of resp ''error'' = None) \<and>
      (\<forall>e. snd (dispatch c (JObj kvs)) = Inl e \<longrightarrow>
           JObj resp = JObj [(''jsonrpc'', JStr ''2.0''), (''id'', request_id_of kvs),
                             (''error'', JObj [(''code'', JInt (- 32603)),
                                               (''message'', JStr (''Errore interno del server: '' @ e))])])"
proof (cases "snd (dispatch c (JObj kvs))")
  case (Inl e)
  then show ?thesis
    by (simp add: handle_object error_response_def)
next
  case (Inr r)
  from dispatch_object [OF Inr] show ?thesis
    by (auto simp: handle_object Inr result_response_def error_response_def)
qed

theorem response_has_result_or_error_witness:
  "snd (dispatch sample_client
          (JObj [(''method'', JStr ''tools/call''), (''id'', JInt 5),
                 (''params'', JObj [(''name'', JStr ''nope'')])])) = Inl ''Strumento non trovato: nope'' \<and>
   handle_mcp_request sample_client
     (JObj [(''method'', JStr ''tools/call''), (''id'', JInt 5),
            (''params'', JObj [(''name'', JStr ''nope'')])]) =
     ([], Inr (JObj [(''jsonrpc'', JStr ''2.0''), (''id'', JInt 5),
                     (''error'', JObj [(''code'', JInt (- 32603)),
                                       (''message'', JStr ''Errore interno del server: Strumento non trovato: nope'')])]))"
proof -
  have d: "dispatch sample_client
          (JObj [(''method'', JStr ''tools/call''), (''id'', JInt 5),
                 (''params'', JObj [(''name'', JStr ''nope'')])]) = ([], Inl ''Strumento non trovato: nope'')"
    by (simp add: dispatch_def eff_defs call_tool_def py_str_def)
  have i: "request_id_of [(''method'', JStr ''tools/call''), (''id'', JInt 5),
                 (''params'', JObj [(''name'', JStr ''nope'')])] = JInt 5"
    by (simp add: request_id_of_def)
  show ?thesis
    using response_has_result_or_error [of sample_client
            "[(''method'', JStr ''tools/call''), (''id'', JInt 5),
              (''params'', JObj [(''name'', JStr ''nope'')])]"]
    unfolding d i
    by (auto simp: handle_object d i error_response_def)
qed

text \<open>
  C6. When the client lists the datasets \<open>ds\<close>, \<^verbatim>\<open>list_datasets\<close> returns (it does not
  raise) the content envelope whose one text is \<^verbatim>\<open>Dataset trovati: \<close>, the number of
  datasets, an empty line and the JSON array, printed with an indent of two, of one entry
  for each dataset, in order: the extended record with location, creation time,
  description and labels when the fetch of its metadata succeeds, and otherwise the
  reduced record whose \<^verbatim>\<open>error\<close> field is \<^verbatim>\<open>Impossibile ottenere dettagli: \<close> followed by
  the text of the fault. The client is asked once for the list and then once for each
  dataset, in order.
\<close>

theorem list_datasets_one_entry_each:
  assumes "cl_list_datasets c = Inr ds"
  shows "\<exists>calls info.
           list_datasets_impl c =
             (CallListDatasets # calls,
              Inr (JObj [(''content'', JList [JObj [(''type'', JStr ''text''),
                 (''text'', JStr (''Dataset trovati: '' @ show_nat (length ds) @ [CHR 0x0A, CHR 0x0A] @
                                  dumps_indent 0 (JList info)))]])])) \<and>
           calls = map (\<lambda>d. CallGetDataset (ds_dataset_id d)) ds \<and>
           length info = length ds \<and>
           (\<forall>i < length ds.
              case cl_get_dataset c (ds_dataset_id (ds ! i)) of
                Inr full \<Rightarrow>
                  info ! i =
                    JObj [(''dataset_id'', JStr (ds_dataset_id (ds ! i))),
                          (''project'', JStr (ds_project (ds ! i))),
                          (''location'', (case fd_location full of None \<Rightarrow> JNull | Some s \<Rightarrow> JStr s)),
                          (''created'', (case fd_created full of None \<Rightarrow> JNull | Some s \<Rightarrow> JStr s)),
                          (''description'',
                             (case fd_description full of
                                None \<Rightarrow> JStr ''Nessuna descrizione''
                              | Some s \<Rightarrow> if s = [] then JStr ''Nessuna descrizione'' else JStr s)),
                          (''labels'', JObj (map (\<lambda>(k, v). (k, JStr v)) (fd_labels full)))]
              | Inl e \<Rightarrow>
                  info ! i =
                    JObj [(''dataset_id'', JStr (ds_dataset_id (ds ! i))),
                          (''project'', JStr (ds_project (ds ! i))),
                          (''full_name'', JStr (ds_project (ds ! i) @ ''.'' @ ds_dataset_id (ds ! i))),
                          (''error'', JStr (''Impossibile ottenere dettagli: '' @ e))])"
proof -
  let ?info = "map (dataset_entry c) ds"
  have r: "list_datasets_impl c =
             (CallListDatasets # map (\<lambda>d. CallGetDataset (ds_dataset_id d)) ds,
              Inr (JObj [(''content'', JList [JObj [(''type'', JStr ''text''),
                 (''text'', JStr (''Dataset trovati: '' @ show_nat (length ds) @ [CHR 0x0A, CHR 0x0A] @
                                  dumps_indent 0 (JList ?info)))]])]))"
    using assms by (simp add: list_datasets_impl_eq text_content_def datasets_text_def)
  have e: "\<forall>i < length ds.
              case cl_get_dataset c (ds_dataset_id (ds ! i)) of
                Inr full \<Rightarrow>
                  ?info ! i =
                    JObj [(''dataset_id'', JStr (ds_dataset_id (ds ! i))),
                          (''project'', JStr (ds_project (ds ! i))),
                          (''location'', (case fd_location full of None \<Rightarrow> JNull | Some s \<Rightarrow> JStr s)),
                          (''created'', (case fd_created full of None \<Rightarrow> JNull | Some s \<Rightarrow> JStr s)),
                          (''description'',
                             (case fd_description full of
                                None \<Rightarrow> JStr ''Nessuna descrizione''
                              | Some s \<Rightarrow> if s = [] then JStr ''Nessuna descrizione'' else JStr s)),
                          (''labels'', JObj (map (\<lambda>(k, v). (k, JStr v)) (fd_labels full)))]
              | Inl e \<Rightarrow>
                  ?info ! i =
                    JObj [(''dataset_id'', JStr (ds_dataset_id (ds ! i))),
                          (''project'', JStr (ds_project (ds ! i))),
                          (''full_name'', JStr (ds_project (ds ! i) @ ''.'' @ ds_dataset_id (ds ! i))),
                          (''error'', JStr (''Impossibile ottenere dettagli: '' @ e))]"
    by (simp add: dataset_entry_def extended_entry_def reduced_entry_def opt_str_def
          description_or_default_def split: sum.splits)
  have l: "length ?info = length ds" by simp
  show ?thesis
    by (rule exI [of _ "map (\<lambda>d. CallGetDataset (ds_dataset_id d)) ds"], rule exI [of _ ?info])
       (intro conjI r refl l e)
qed

theorem list_datasets_one_entry_each_witness:
  \<open>cl_list_datasets sample_client =
     Inr [\<lparr>ds_dataset_id = ''sales'', ds_project = ''p''\<rparr>, \<lparr>ds_dataset_id = ''hr'', ds_project = ''p''\<rparr>] \<and>
   cl_get_dataset sample_client ''hr'' = Inl ''403 Access Denied'' \<and>
   list_datasets_impl sample_client =
     ([CallListDatasets, CallGetDataset ''sales'', CallGetDataset ''hr''],
      Inr (JObj [(''content'', JList [JObj [(''type'', JStr ''text''),
        (''text'', JStr ''Dataset trovati: 2\<newline>\<newline>[\<newline>  {\<newline>    "dataset_id": "sales",\<newline>    "project": "p",\<newline>    "location": "EU",\<newline>    "created": "2024-01-01 00:00:00+00:00",\<newline>    "description": "Nessuna descrizione",\<newline>    "labels": {\<newline>      "env": "prod"\<newline>    }\<newline>  },\<newline>  {\<newline>    "dataset_id": "hr",\<newline>    "project": "p",\<newline>    "full_name": "p.hr",\<newline>    "error": "Impossibile ottenere dettagli: 403 Access Denied"\<newline>  }\<newline>]'')]])]))\<close>
proof -
  let ?ds = "[\<lparr>ds_dataset_id = ''sales'', ds_project = ''p''\<rparr>, \<lparr>ds_dataset_id = ''hr'', ds_project = ''p''\<rparr>]"
  have l: "cl_list_datasets sample_client = Inr ?ds"
    by (simp add: sample_client_def)
  have g1: "cl_get_dataset sample_client ''sales'' =
      Inr \<lparr>fd_location = Some ''EU'', fd_created = Some ''2024-01-01 00:00:00+00:00'',
           fd_description = None, fd_labels = [(''env'', ''prod'')]\<rparr>"
    by (simp add: sample_client_def)
  have g2: "cl_get_dataset sample_client ''hr'' = Inl ''403 Access Denied''"
    by (simp add: sample_client_def)
  from list_datasets_one_entry_each [OF l] obtain calls info where
    a: "list_datasets_impl sample_client =
          (CallListDatasets # calls,
           Inr (JObj [(''content'', JList [JObj [(''type'', JStr ''text''),
              (''text'', JStr (''Dataset trovati: '' @ show_nat (length ?ds) @ [CHR 0x0A, CHR 0x0A] @
                               dumps_indent 0 (JList info)))]])]))"
    and b: "calls = map (\<lambda>d. CallGetDataset (ds_dataset_id d)) ?ds"
    and n: "length info = length ?ds"
    and e: "\<forall>i < length ?ds.
              case cl_get_dataset sample_client (ds_dataset_id (?ds ! i)) of
                Inr full \<Rightarrow>
                  info ! i =
                    JObj [(''dataset_id'', JStr (ds_dataset_id (?ds ! i))),
                          (''project'', JStr (ds_project (?ds ! i))),
                          (''location'', (case fd_location full of None \<Rightarrow> JNull | Some s \<Rightarrow> JStr s)),
                          (''created'', (case fd_created full of None \<Rightarrow> JNull | Some s \<Rightarrow> JStr s)),
                          (''description'',
                             (case fd_description full of
                                None \<Rightarrow> JStr ''Nessuna descrizione''
                              | Some s \<Rightarrow> if s = [] then JStr ''Nessuna descrizione'' else JStr s)),
                          (''labels'', JObj (map (\<lambda>(k, v). (k, JStr v)) (fd_labels full)))]
              | Inl e \<Rightarrow>
                  info ! i =
                    JObj [(''dataset_id'', JStr (ds_dataset_id (?ds ! i))),
                          (''project'', JStr (ds_project (?ds ! i))),
                          (''full_name'', JStr (ds_project (?ds ! i) @ ''.'' @ ds_dataset_id (?ds ! i))),
                          (''error'', JStr (''Impossibile ottenere dettagli: '' @ e))]"
    by (elim exE conjE)
  from e [rule_format, of 0] have e0: "info ! 0 =
        JObj [(''dataset_id'', JStr ''sales''), (''project'', JStr ''p''), (''location'', JStr ''EU''),
              (''created'', JStr ''2024-01-01 00:00:00+00:00''),
              (''description'', JStr ''Nessuna descrizione''),
              (''labels'', JObj [(''env'', JStr ''prod'')])]"
    by (simp add: g1)
  from e [rule_format, of 1] have e1: "info ! 1 =
        JObj [(''dataset_id'', JStr ''hr''), (''project'', JStr ''p''), (''full_name'', JStr ''p.hr''),
              (''error'', JStr ''Impossibile ottenere dettagli: 403 Access Denied'')]"
    by (simp add: g2)
  from n have "info = [info ! 0, info ! 1]"
    by (cases info; simp; cases "tl info"; simp; cases "tl (tl info)"; auto)
  with e0 e1 have i: "info =
       [JObj [(''dataset_id'', JStr ''sales''), (''project'', JStr ''p''), (''location'', JStr ''EU''),
              (''created'', JStr ''2024-01-01 00:00:00+00:00''),
              (''description'', JStr ''Nessuna descrizione''),
              (''labels'', JObj [(''env'', JStr ''prod'')])],
        JObj [(''dataset_id'', JStr ''hr''), (''project'', JStr ''p''), (''full_name'', JStr ''p.hr''),
              (''error'', JStr ''Impossibile ottenere dettagli: 403 Access Denied'')]]"
    by simp
  have t: \<open>''Dataset trovati: '' @ show_nat (length ?ds) @ [CHR 0x0A, CHR 0x0A] @
           dumps_indent 0 (JList
       [JObj [(''dataset_id'', JStr ''sales''), (''project'', JStr ''p''), (''location'', JStr ''EU''),
              (''created'', JStr ''2024-01-01 00:00:00+00:00''),
              (''description'', JStr ''Nessuna descrizione''),
              (''labels'', JObj [(''env'', JStr ''prod'')])],
        JObj [(''dataset_id'', JStr ''hr''), (''project'', JStr ''p''), (''full_name'', JStr ''p.hr''),
              (''error'', JStr ''Impossibile ottenere dettagli: 403 Access Denied'')]]) =
     ''Dataset trovati: 2\<newline>\<newline>[\<newline>  {\<newline>    "dataset_id": "sales",\<newline>    "project": "p",\<newline>    "location": "EU",\<newline>    "created": "2024-01-01 00:00:00+00:00",\<newline>    "description": "Nessuna descrizione",\<newline>    "labels": {\<newline>      "env": "prod"\<newline>    }\<newline>  },\<newline>  {\<newline>    "dataset_id": "hr",\<newline>    "project": "p",\<newline>    "full_name": "p.hr",\<newline>    "error": "Impossibile ottenere dettagli: 403 Access Denied"\<newline>  }\<newline>]''\<close>
    by (simp add: show_nat.simps digit_char_def json_str_def json_char_def newline_indent_def
          numeral_2_eq_2)
  from a have "list_datasets_impl sample_client =
     ([CallListDatasets, CallGetDataset ''sales'', CallGetDataset ''hr''],
      Inr (JObj [(''content'', JList [JObj [(''type'', JStr ''text''),
        (''text'', JStr (''Dataset trovati: '' @ show_nat (length ?ds) @ [CHR 0x0A, CHR 0x0A] @
                               dumps_indent 0 (JList info)))]])]))"
    unfolding b by simp
  then show ?thesis
    unfolding i t using l g2 by simp
qed

text \<open>
  C7, as the code has it. No tool checks that a required key is present. An absent
  \<^verbatim>\<open>query\<close> is read as the empty text and an absent \<^verbatim>\<open>dataset_id\<close> or \<^verbatim>\<open>table_id\<close>
  as \<^verbatim>\<open>None\<close>, and the call goes on to the client exactly as if that value had been
  supplied: \<^verbatim>\<open>query_bigquery\<close> sends a query, \<^verbatim>\<open>list_tables\<close> and \<^verbatim>\<open>describe_table\<close>
  ask the client for the dataset \<^verbatim>\<open>None\<close>.
\<close>

theorem missing_argument_reads_default:
  "(map_of kvs ''query'' = None \<longrightarrow>
      call_tool c (JStr ''query_bigquery'') (JObj kvs) =
        call_tool c (JStr ''query_bigquery'') (JObj ((''query'', JStr []) # kvs)) \<and>
      fst (call_tool c (JStr ''query_bigquery'') (JObj kvs)) \<noteq> []) \<and>
   (map_of kvs ''dataset_id'' = None \<longrightarrow>
      call_tool c (JStr ''list_tables'') (JObj kvs) =
        call_tool c (JStr ''list_tables'') (JObj ((''dataset_id'', JNull) # kvs)) \<and>
      hd (fst (call_tool c (JStr ''list_tables'') (JObj kvs))) = CallDataset JNull \<and>
      fst (call_tool c (JStr ''list_tables'') (JObj kvs)) \<noteq> []) \<and>
   (map_of kvs ''dataset_id'' = None \<longrightarrow>
      call_tool c (JStr ''describe_table'') (JObj kvs) =
        call_tool c (JStr ''describe_table'') (JObj ((''dataset_id'', JNull) # kvs)) \<and>
      hd (fst (call_tool c (JStr ''describe_table'') (JObj kvs))) = CallDataset JNull \<and>
      fst (call_tool c (JStr ''describe_table'') (JObj kvs)) \<noteq> []) \<and>
   (map_of kvs ''table_id'' = None \<longrightarrow>
      call_tool c (JStr ''describe_table'') (JObj kvs) =
        call_tool c (JStr ''describe_table'') (JObj ((''table_id'', JNull) # kvs)) \<and>
      fst (call_tool c (JStr ''describe_table'') (JObj kvs)) \<noteq> [])"
proof -
  have q: "map_of kvs ''query'' = None \<longrightarrow>
      query_bigquery c (JObj kvs) = query_bigquery c (JObj ((''query'', JStr []) # kvs)) \<and>
      fst (query_bigquery c (JObj kvs)) \<noteq> []"
  proof (intro impI conjI)
    assume m: "map_of kvs ''query'' = None"
    have g: "py_get (JObj ((''query'', JStr []) # kvs)) ''query'' (JStr []) =
               py_get (JObj kvs) ''query'' (JStr [])"
            "py_get (JObj ((''query'', JStr []) # kvs)) ''limit'' (JInt 100) =
               py_get (JObj kvs) ''limit'' (JInt 100)"
      using m by simp_all
    show "query_bigquery c (JObj kvs) = query_bigquery c (JObj ((''query'', JStr []) # kvs))"
      by (simp only: query_bigquery_def g)
    have "py_get (JObj kvs) ''query'' (JStr []) = Inr (JStr [])"
      using m by simp
    from query_bigquery_calls [OF this, of _ c]
    show "fst (query_bigquery c (JObj kvs)) \<noteq> []"
      by simp
  qed
  have l: "map_of kvs ''dataset_id'' = None \<longrightarrow>
      list_tables c (JObj kvs) = list_tables c (JObj ((''dataset_id'', JNull) # kvs)) \<and>
      hd (fst (list_tables c (JObj kvs))) = CallDataset JNull \<and>
      fst (list_tables c (JObj kvs)) \<noteq> []"
    by (auto simp: list_tables_def eff_defs Let_def split: sum.splits)
  have d: "map_of kvs ''dataset_id'' = None \<longrightarrow>
      describe_table c (JObj kvs) = describe_table c (JObj ((''dataset_id'', JNull) # kvs)) \<and>
      hd (fst (describe_table c (JObj kvs))) = CallDataset JNull \<and>
      fst (describe_table c (JObj kvs)) \<noteq> []"
    by (auto simp: describe_table_def eff_defs Let_def split: sum.splits)
  have t: "map_of kvs ''table_id'' = None \<longrightarrow>
      describe_table c (JObj kvs) = describe_table c (JObj ((''table_id'', JNull) # kvs)) \<and>
      fst (describe_table c (JObj kvs)) \<noteq> []"
    by (auto simp: describe_table_def eff_defs Let_def split: sum.splits)
  have ct: "call_tool c (JStr ''query_bigquery'') a = query_bigquery c a"
           "call_tool c (JStr ''list_tables'') a = list_tables c a"
           "call_tool c (JStr ''describe_table'') a = describe_table c a" for a
    by (simp_all add: call_tool_def)
  from q l d t show ?thesis
    unfolding ct by blast
qed

theorem missing_argument_reads_default_witness:
  "map_of [(''limit'', JInt 5)] ''query'' = None \<and>
   map_of [(''limit'', JInt 5)] ''dataset_id'' = None \<and>
   map_of [(''limit'', JInt 5)] ''table_id'' = None \<and>
   call_tool sample_client (JStr ''query_bigquery'') (JObj [(''limit'', JInt 5)]) =
     call_tool sample_client (JStr ''query_bigquery'') (JObj [(''query'', JStr []), (''limit'', JInt 5)]) \<and>
   fst (call_tool sample_client (JStr ''query_bigquery'') (JObj [(''limit'', JInt 5)])) = [CallQuery '' LIMIT 5''] \<and>
   call_tool sample_client (JStr ''list_tables'') (JObj [(''limit'', JInt 5)]) =
     call_tool sample_client (JStr ''list_tables'') (JObj [(''dataset_id'', JNull), (''limit'', JInt 5)]) \<and>
   call_tool sample_client (JStr ''describe_table'') (JObj [(''limit'', JInt 5)]) =
     call_tool sample_client (JStr ''describe_table'') (JObj [(''dataset_id'', JNull), (''limit'', JInt 5)]) \<and>
   call_tool sample_client (JStr ''describe_table'') (JObj [(''limit'', JInt 5)]) =
     call_tool sample_client (JStr ''describe_table'') (JObj [(''table_id'', JNull), (''limit'', JInt 5)]) \<and>
   fst (call_tool sample_client (JStr ''describe_table'') (JObj [(''limit'', JInt 5)])) = [CallDataset JNull]"
proof -
  have e1: "fst (call_tool sample_client (JStr ''query_bigquery'') (JObj [(''limit'', JInt 5)])) = [CallQuery '' LIMIT 5'']"
    by code_simp
  have e2: "fst (call_tool sample_client (JStr ''describe_table'') (JObj [(''limit'', JInt 5)])) = [CallDataset JNull]"
    by code_simp
  have m: "map_of [(''limit'', JInt 5)] ''query'' = None"
          "map_of [(''limit'', JInt 5)] ''dataset_id'' = None"
          "map_of [(''limit'', JInt 5)] ''table_id'' = None"
    by simp_all
  show ?thesis
    using missing_argument_reads_default [of "[(''limit'', JInt 5)]" sample_client] m e1 e2
    by blast
qed

text \<open>
  C7 as stated fails: a \<^verbatim>\<open>query_bigquery\<close> call without any argument sends the query
  \<^verbatim>\<open> LIMIT 100\<close> to the client and reports its rows.
\<close>

theorem missing_query_counterexample:
  "map_of ([] :: (string \<times> json) list) ''query'' = None \<and>
   call_tool sample_client (JStr ''query_bigquery'') (JObj []) =
     ([CallQuery '' LIMIT 100''],
      Inr (text_content (''Query eseguita con successo. Righe restituite: 1'' @ [CHR 0x0A, CHR 0x0A] @
           ''Risultati:'' @ [CHR 0x0A] @ dumps_indent 0 (JList [JObj [(''f0_'', JInt 1)]]))))"
  by code_simp




text \<open>
  C10, as the code has it. Whatever the body of a POST to \<^verbatim>\<open>/sse\<close> is, the stream is
  exactly one frame \<^verbatim>\<open>data: <json>\<close> followed by an empty line, never none and never two.
  The empty body gives the \<^verbatim>\<open>connected\<close> frame. A body that cannot be decoded or parsed,
  and a body whose JSON value is not an object, raise in the \<^verbatim>\<open>try\<close> of the stream: the
  frame carries the error of code \<open>-32603\<close> with \<^verbatim>\<open>id\<close> \<^verbatim>\<open>null\<close> and
  \<^verbatim>\<open>Errore del server SSE: \<close> followed by the text of the fault. A body that parses to an
  object is answered by the dispatcher; when the dispatch raises, the dispatcher catches
  the fault itself and the frame carries the error of code \<open>-32603\<close> with the \<^verbatim>\<open>id\<close> of
  the request, \<^verbatim>\<open>null\<close> only when the request has none, and
  \<^verbatim>\<open>Errore interno del server: \<close> followed by the text of the fault.
\<close>

theorem sse_exactly_one_frame:
  "\<exists>calls v.
      event_stream loads c body = (calls, Inr [''data: '' @ dumps v @ [CHR 0x0A, CHR 0x0A]]) \<and>
      (body = [] \<longrightarrow> calls = [] \<and> v = JObj [(''type'', JStr ''connected'')]) \<and>
      (\<forall>e. body \<noteq> [] \<and> loads body = Inl e \<longrightarrow>
           calls = [] \<and>
           v = JObj [(''jsonrpc'', JStr ''2.0''), (''id'', JNull),
                     (''error'', JObj [(''code'', JInt (- 32603)),
                                       (''message'', JStr (''Errore del server SSE: '' @ e))])]) \<and>
      (\<forall>x. body \<noteq> [] \<and> loads body = Inr x \<and> (\<forall>kvs. x \<noteq> JObj kvs) \<longrightarrow>
           calls = [] \<and>
           v = JObj [(''jsonrpc'', JStr ''2.0''), (''id'', JNull),
                     (''error'', JObj [(''code'', JInt (- 32603)),
                                       (''message'', JStr (''Errore del server SSE: '' @
                                                           no_attribute x ''get''))])]) \<and>
      (\<forall>kvs. body \<noteq> [] \<and> loads body = Inr (JObj kvs) \<longrightarrow>
           handle_mcp_request c (JObj kvs) = (calls, Inr v)) \<and>
      (\<forall>kvs e. body \<noteq> [] \<and> loads body = Inr (JObj kvs) \<and> snd (dispatch c (JObj kvs)) = Inl e \<longrightarrow>
           v = JObj [(''jsonrpc'', JStr ''2.0''),
                     (''id'', (case map_of kvs ''id'' of None \<Rightarrow> JNull | Some i \<Rightarrow> i)),
                     (''error'', JObj [(''code'', JInt (- 32603)),
                                       (''message'', JStr (''Errore interno del server: '' @ e))])])"
proof -
  let ?P = "\<lambda>calls v.
      event_stream loads c body = (calls, Inr [''data: '' @ dumps v @ [CHR 0x0A, CHR 0x0A]]) \<and>
      (body = [] \<longrightarrow> calls = [] \<and> v = JObj [(''type'', JStr ''connected'')]) \<and>
      (\<forall>e. body \<noteq> [] \<and> loads body = Inl e \<longrightarrow>
           calls = [] \<and>
           v = JObj [(''jsonrpc'', JStr ''2.0''), (''id'', JNull),
                     (''error'', JObj [(''code'', JInt (- 32603)),
                                       (''message'', JStr (''Errore del server SSE: '' @ e))])]) \<and>
      (\<forall>x. body \<noteq> [] \<and> loads body = Inr x \<and> (\<forall>kvs. x \<noteq> JObj kvs) \<longrightarrow>
           calls = [] \<and>
           v = JObj [(''jsonrpc'', JStr ''2.0''), (''id'', JNull),
                     (''error'', JObj [(''code'', JInt (- 32603)),
                                       (''message'', JStr (''Errore del server SSE: '' @
                                                           no_attribute x ''get''))])]) \<and>
      (\<forall>kvs. body \<noteq> [] \<and> loads body = Inr (JObj kvs) \<longrightarrow>
           handle_mcp_request c (JObj kvs) = (calls, Inr v)) \<and>
      (\<forall>kvs e. body \<noteq> [] \<and> loads body = Inr (JObj kvs) \<and> snd (dispatch c (JObj kvs)) = Inl e \<longrightarrow>
           v = JObj [(''jsonrpc'', JStr ''2.0''),
                     (''id'', (case map_of kvs ''id'' of None \<Rightarrow> JNull | Some i \<Rightarrow> i)),
                     (''error'', JObj [(''code'', JInt (- 32603)),
                                       (''message'', JStr (''Errore interno del server: '' @ e))])])"
  show ?thesis
  proof (cases "body = []")
    case True
    then have "?P [] (JObj [(''type'', JStr ''connected'')])"
      by (simp add: event_stream_eq sse_frame_def)
    then show ?thesis by blast
  next
    case nonempty: False
    show ?thesis
    proof (cases "loads body")
      case (Inl e)
      with nonempty have "?P [] (error_response JNull (- 32603) (''Errore del server SSE: '' @ e))"
        by (simp add: event_stream_eq sse_frame_def error_response_def)
      then show ?thesis by blast
    next
      case (Inr x)
      show ?thesis
      proof (cases "\<exists>kvs. x = JObj kvs")
        case False
        then have n: "\<And>kvs. x \<noteq> JObj kvs" by simp
        from nonempty Inr n
        have "?P [] (error_response JNull (- 32603) (''Errore del server SSE: '' @ no_attribute x ''get''))"
          by (simp add: event_stream_eq sse_frame_def error_response_def handle_not_object)
        then show ?thesis by blast
      next
        case True
        then obtain kvs where x: "x = JObj kvs" by blast
        obtain calls r where h: "handle_mcp_request c (JObj kvs) = (calls, r)"
          by (cases "handle_mcp_request c (JObj kvs)")
        have "\<exists>v. snd (handle_mcp_request c (JObj kvs)) = Inr v"
          by (simp add: handle_object split: sum.splits)
        with h obtain v where r: "r = Inr v" by auto
        have d: "v = error_response (request_id_of kvs) (- 32603) (''Errore interno del server: '' @ e)"
          if "snd (dispatch c (JObj kvs)) = Inl e" for e
          using that h r by (simp add: handle_object)
        from nonempty Inr x h r d have "?P calls v"
          by (simp add: event_stream_eq sse_frame_def error_response_def request_id_of_def)
        then show ?thesis by blast
      qed
    qed
  qed
qed

theorem sse_exactly_one_frame_witness:
  \<open>sample_loads ''[1]'' = Inr (JList [JInt 1]) \<and>
   event_stream sample_loads sample_client ''[1]'' =
     ([], Inr [''data: {"jsonrpc": "2.0", "id": null, "error": {"code": -32603, "message": "Errore del server SSE: 'list' object has no attribute 'get'"}}'' @ [CHR 0x0A, CHR 0x0A]]) \<and>
   sample_loads ''not json'' = Inl ''Expecting value: line 1 column 1 (char 0)'' \<and>
   event_stream sample_loads sample_client ''not json'' =
     ([], Inr [''data: {"jsonrpc": "2.0", "id": null, "error": {"code": -32603, "message": "Errore del server SSE: Expecting value: line 1 column 1 (char 0)"}}'' @ [CHR 0x0A, CHR 0x0A]])\<close>
proof -
  let ?err = "\<lambda>e. JObj [(''jsonrpc'', JStr ''2.0''), (''id'', JNull),
                     (''error'', JObj [(''code'', JInt (- 32603)),
                                       (''message'', JStr (''Errore del server SSE: '' @ e))])]"
  have l1: "sample_loads ''[1]'' = Inr (JList [JInt 1])"
    by (simp add: sample_loads_def)
  have l2: "sample_loads ''not json'' = Inl ''Expecting value: line 1 column 1 (char 0)''"
    by (simp add: sample_loads_def)
  have f1: \<open>''data: '' @ dumps (?err (no_attribute (JList [JInt 1]) ''get'')) @ [CHR 0x0A, CHR 0x0A] =
      ''data: {"jsonrpc": "2.0", "id": null, "error": {"code": -32603, "message": "Errore del server SSE: 'list' object has no attribute 'get'"}}'' @ [CHR 0x0A, CHR 0x0A]\<close>
    by (simp add: json_str_def json_char_def show_int_def show_nat.simps digit_char_def
          no_attribute_def)
  have f2: \<open>''data: '' @ dumps (?err ''Expecting value: line 1 column 1 (char 0)'') @ [CHR 0x0A, CHR 0x0A] =
      ''data: {"jsonrpc": "2.0", "id": null, "error": {"code": -32603, "message": "Errore del server SSE: Expecting value: line 1 column 1 (char 0)"}}'' @ [CHR 0x0A, CHR 0x0A]\<close>
    by (simp add: json_str_def json_char_def show_int_def show_nat.simps digit_char_def)
  have r1: "event_stream sample_loads sample_client ''[1]'' =
              ([], Inr [''data: '' @ dumps (?err (no_attribute (JList [JInt 1]) ''get'')) @
                        [CHR 0x0A, CHR 0x0A]])"
  proof -
    from sse_exactly_one_frame [of sample_loads sample_client "''[1]''"] obtain calls v where
      a: "event_stream sample_loads sample_client ''[1]'' =
            (calls, Inr [''data: '' @ dumps v @ [CHR 0x0A, CHR 0x0A]])" and
      b: "\<forall>x. ''[1]'' \<noteq> [] \<and> sample_loads ''[1]'' = Inr x \<and> (\<forall>kvs. x \<noteq> JObj kvs) \<longrightarrow>
            calls = [] \<and> v = ?err (no_attribute x ''get'')"
      by (elim exE conjE)
    from b [rule_format, of "JList [JInt 1]"] l1
    have "calls = [] \<and> v = ?err (no_attribute (JList [JInt 1]) ''get'')" by simp
    with a show ?thesis by simp
  qed
  have r2: "event_stream sample_loads sample_client ''not json'' =
              ([], Inr [''data: '' @ dumps (?err ''Expecting value: line 1 column 1 (char 0)'') @
                        [CHR 0x0A, CHR 0x0A]])"
  proof -
    from sse_exactly_one_frame [of sample_loads sample_client "''not json''"] obtain calls v where
      a: "event_stream sample_loads sample_client ''not json'' =
            (calls, Inr [''data: '' @ dumps v @ [CHR 0x0A, CHR 0x0A]])" and
      b: "\<forall>e. ''not json'' \<noteq> [] \<and> sample_loads ''not json'' = Inl e \<longrightarrow>
            calls = [] \<and> v = ?err e"
      by (elim exE conjE)
    from b [rule_format, of "''Expecting value: line 1 column 1 (char 0)''"] l2
    have "calls = [] \<and> v = ?err ''Expecting value: line 1 column 1 (char 0)''" by simp
    with a show ?thesis by simp
  qed
  show ?thesis
    unfolding r1 r2 f1 f2 l1 l2 by simp
qed

text \<open>
  C10 as stated fails: a fault raised while a parsed request is dispatched does not reach
  the \<^verbatim>\<open>except\<close> of the stream. The body
  \<^verbatim>\<open>{"id": 7, "method": "tools/call", "params": null}\<close> makes \<^verbatim>\<open>params.get\<close> raise, and the
  one frame of the stream carries the error of code \<open>-32603\<close> with \<^verbatim>\<open>id\<close> \<open>7\<close>, not
  \<^verbatim>\<open>null\<close>.
\<close>

theorem sse_dispatch_fault_counterexample:
  \<open>sample_loads ''{"id": 7, "method": "tools/call", "params": null}'' =
     Inr (JObj [(''id'', JInt 7), (''method'', JStr ''tools/call''), (''params'', JNull)]) \<and>
   dispatch sample_client
     (JObj [(''id'', JInt 7), (''method'', JStr ''tools/call''), (''params'', JNull)]) =
     ([], Inl (no_attribute JNull ''get'')) \<and>
   event_stream sample_loads sample_client ''{"id": 7, "method": "tools/call", "params": null}'' =
     ([], Inr [''data: {"jsonrpc": "2.0", "id": 7, "error": {"code": -32603, "message": "Errore interno del server: 'NoneType' object has no attribute 'get'"}}'' @ [CHR 0x0A, CHR 0x0A]])\<close>
proof -
  let ?req = "JObj [(''id'', JInt 7), (''method'', JStr ''tools/call''), (''params'', JNull)]"
  have l: \<open>sample_loads ''{"id": 7, "method": "tools/call", "params": null}'' = Inr ?req\<close>
    by (simp add: sample_loads_def)
  have d: "dispatch sample_client ?req = ([], Inl (no_attribute JNull ''get''))"
    by (simp add: dispatch_def eff_defs)
  have h: "handle_mcp_request sample_client ?req =
             ([], Inr (error_response (JInt 7) (- 32603)
                         (''Errore interno del server: '' @ no_attribute JNull ''get'')))"
    by (simp add: handle_object d request_id_of_def)
  have e: \<open>event_stream sample_loads sample_client ''{"id": 7, "method": "tools/call", "params": null}'' =
             ([], Inr [sse_frame (error_response (JInt 7) (- 32603)
                         (''Errore interno del server: '' @ no_attribute JNull ''get''))])\<close>
    by (simp add: event_stream_eq l h)
  have f: \<open>sse_frame (error_response (JInt 7) (- 32603)
                         (''Errore interno del server: '' @ no_attribute JNull ''get'')) =
      ''data: {"jsonrpc": "2.0", "id": 7, "error": {"code": -32603, "message": "Errore interno del server: 'NoneType' object has no attribute 'get'"}}'' @ [CHR 0x0A, CHR 0x0A]\<close>
    by (simp add: sse_frame_def error_response_def json_str_def json_char_def show_int_def
          show_nat.simps digit_char_def no_attribute_def)
  show ?thesis
    unfolding e f l d by simp
qed

end
